theory Spec2Isabelle
  imports Main "HOL-Library.Multiset"
begin

section \<open>The DonutSMP auction-house bot: search, cache, paging\<close>

text \<open>
  A shallow embedding of \<^verbatim>\<open>src/donut_bot.py\<close>: the API client
  \<^verbatim>\<open>make_api_request\<close>, the formatting helpers, the page renderer
  \<^verbatim>\<open>build_ah_page\<close>, the two searches \<^verbatim>\<open>ah_command\<close> and
  \<^verbatim>\<open>price_command\<close>, and the callback router \<^verbatim>\<open>button_handler\<close>.

  Conventions of the model.
  \<^item> A Python \<^verbatim>\<open>str\<close> is a \<^typ>\<open>string\<close>, a list of 8-bit characters: the UTF-8
    encoding of its code points. Splitting at colons, replacing ASCII substrings,
    substring tests and escaping are the same on the encoding as on the code points.
  \<^item> The built-ins whose result depends on Unicode tables (\<^verbatim>\<open>str.lower\<close>,
    \<^verbatim>\<open>str.title\<close>, \<^verbatim>\<open>int\<close> of a string) are written out for ASCII strings;
    what they do on a string with a code point outside ASCII, and the interpreter's
    limit on the digits of an integer literal, are parameters of the model (the record
    \<open>python\<close>). Every property below holds for every value of these parameters.
  \<^item> Python's unbounded \<^verbatim>\<open>int\<close> is \<^typ>\<open>int\<close>.
  \<^item> The remote server, the chat platform and the random identifier are parameters or
    explicit outputs: a handler takes the remote and the conversation's \<^verbatim>\<open>chat_data\<close>
    and returns the new \<^verbatim>\<open>chat_data\<close> together with the messages it sent and the
    requests and log records it produced, in order.
\<close>

subsection \<open>Python string operations used by the bot\<close>

text \<open>
  The part of the interpreter that is not written out: \<^verbatim>\<open>str.lower\<close>, \<^verbatim>\<open>str.title\<close>
  and \<^verbatim>\<open>int\<close> on a string that is not ASCII (\<open>None\<close> is \<^verbatim>\<open>ValueError\<close>), and
  \<^verbatim>\<open>sys.get_int_max_str_digits()\<close> (4300 unless changed; 0 is no limit).
\<close>

record python =
  unicode_lower :: "string \<Rightarrow> string"
  unicode_title :: "string \<Rightarrow> string"
  unicode_int :: "string \<Rightarrow> int option"
  int_max_str_digits :: nat

text \<open>\<^verbatim>\<open>s.isascii()\<close>\<close>

fun is_ascii :: "string \<Rightarrow> bool" where
  "is_ascii [] = True"
| "is_ascii (c # s) = ((of_char c :: nat) < 128 \<and> is_ascii s)"

definition lower_char :: "char \<Rightarrow> char" where
  "lower_char c =
     (let n = (of_char c :: nat) in if 65 \<le> n \<and> n \<le> 90 then char_of (n + 32) else c)"

definition upper_char :: "char \<Rightarrow> char" where
  "upper_char c =
     (let n = (of_char c :: nat) in if 97 \<le> n \<and> n \<le> 122 then char_of (n - 32) else c)"

definition is_cased :: "char \<Rightarrow> bool" where
  "is_cased c =
     (let n = (of_char c :: nat) in (65 \<le> n \<and> n \<le> 90) \<or> (97 \<le> n \<and> n \<le> 122))"

text \<open>\<^verbatim>\<open>s.lower()\<close>: on an ASCII string the letters \<^verbatim>\<open>A-Z\<close> become \<^verbatim>\<open>a-z\<close>.\<close>

definition lower :: "python \<Rightarrow> string \<Rightarrow> string" where
  "lower py s = (if is_ascii s then map lower_char s else unicode_lower py s)"

text \<open>
  \<^verbatim>\<open>s.title()\<close>: on an ASCII string a letter is upper-cased when the character
  before it is not a letter (or there is none) and lower-cased otherwise.
\<close>

fun title_from :: "bool \<Rightarrow> string \<Rightarrow> string" where
  "title_from previous_is_cased [] = []"
| "title_from previous_is_cased (c # s) =
     (if previous_is_cased then lower_char c else upper_char c) # title_from (is_cased c) s"

definition title :: "python \<Rightarrow> string \<Rightarrow> string" where
  "title py s = (if is_ascii s then title_from False s else unicode_title py s)"

text \<open>\<^verbatim>\<open>s.startswith(p)\<close>\<close>

fun startswith :: "string \<Rightarrow> string \<Rightarrow> bool" where
  "startswith s [] = True"
| "startswith [] (p # ps) = False"
| "startswith (c # s) (p # ps) = (c = p \<and> startswith s ps)"

text \<open>\<^verbatim>\<open>t in s\<close> on strings: \<open>t\<close> occurs in \<open>s\<close> as a contiguous run.\<close>

fun py_in :: "string \<Rightarrow> string \<Rightarrow> bool" where
  "py_in t [] = (t = [])"
| "py_in t (c # s) = (startswith (c # s) t \<or> py_in t s)"

text \<open>
  \<^verbatim>\<open>s.replace(old, new)\<close>: every non-overlapping occurrence of \<open>old\<close>, found from
  the left. With an empty \<open>old\<close> Python puts \<open>new\<close> before every character and at the end.
\<close>

function replace_from :: "string \<Rightarrow> string \<Rightarrow> string \<Rightarrow> string" where
  "replace_from old new s =
     (if s = [] then []
      else if old \<noteq> [] \<and> startswith s old then new @ replace_from old new (drop (length old) s)
      else hd s # replace_from old new (tl s))"
  by pat_completeness auto
termination
  by (relation "measure (\<lambda>(old, new, s). length s)") auto

declare replace_from.simps [simp del]

definition replace :: "string \<Rightarrow> string \<Rightarrow> string \<Rightarrow> string" where
  "replace s old new =
     (if old = [] then new @ concat (map (\<lambda>c. c # new) s) else replace_from old new s)"

text \<open>\<^verbatim>\<open>sep.join(parts)\<close>\<close>

fun join :: "string \<Rightarrow> string list \<Rightarrow> string" where
  "join sep [] = []"
| "join sep [p] = p"
| "join sep (p # q # ps) = p @ sep @ join sep (q # ps)"

text \<open>\<^verbatim>\<open>s.split(':')\<close>: the fields between the colons; never an empty list.\<close>

fun split_colon :: "string \<Rightarrow> string list" where
  "split_colon [] = [[]]"
| "split_colon (c # s) =
     (if c = CHR '':'' then [] # split_colon s
      else (case split_colon s of [] \<Rightarrow> [[c]] | f # fs \<Rightarrow> (c # f) # fs))"

text \<open>\<^verbatim>\<open>str(n)\<close> for an integer, and the format \<^verbatim>\<open>f"{n:,}"\<close>.\<close>

definition digit_char :: "nat \<Rightarrow> char" where
  "digit_char d = char_of (48 + d)"

function str_nat :: "nat \<Rightarrow> string" where
  "str_nat n = (if n < 10 then [digit_char n] else str_nat (n div 10) @ [digit_char (n mod 10)])"
  by pat_completeness auto
termination
  by (relation "measure (\<lambda>n. n)") auto

declare str_nat.simps [simp del]

definition str_int :: "int \<Rightarrow> string" where
  "str_int i = (if i < 0 then CHR ''-'' # str_nat (nat (- i)) else str_nat (nat i))"

function group_thousands :: "nat \<Rightarrow> string" where
  "group_thousands n =
     (if n < 1000 then str_nat n
      else group_thousands (n div 1000) @ '','' @
           [digit_char (n mod 1000 div 100), digit_char (n mod 100 div 10), digit_char (n mod 10)])"
  by pat_completeness auto
termination
  by (relation "measure (\<lambda>n. n)") auto

declare group_thousands.simps [simp del]

definition format_commas :: "int \<Rightarrow> string" where
  "format_commas i =
     (if i < 0 then CHR ''-'' # group_thousands (nat (- i)) else group_thousands (nat i))"

text \<open>
  \<^verbatim>\<open>int(s)\<close> on an ASCII string: surrounding whitespace (tab, line feed, vertical tab,
  form feed, carriage return, space) is dropped, one sign is allowed, then decimal
  digits, where single underscores may stand between digits. Anything else is a
  \<^verbatim>\<open>ValueError\<close>, here \<open>None\<close>, and so is a literal of more than 640 digits that
  has more digits than the interpreter's limit, when there is one.
\<close>

definition is_space :: "char \<Rightarrow> bool" where
  "is_space c = (let n = (of_char c :: nat) in (9 \<le> n \<and> n \<le> 13) \<or> n = 32)"

definition is_digit :: "char \<Rightarrow> bool" where
  "is_digit c = (let n = (of_char c :: nat) in 48 \<le> n \<and> n \<le> 57)"

definition strip :: "string \<Rightarrow> string" where
  "strip s = rev (dropWhile is_space (rev (dropWhile is_space s)))"

fun digits_value :: "nat \<Rightarrow> string \<Rightarrow> nat option" where
  "digits_value acc [] = Some acc"
| "digits_value acc (c # s) =
     (if is_digit c then digits_value (10 * acc + (of_char c - 48)) s
      else if c = CHR ''_'' \<and> s \<noteq> [] \<and> is_digit (hd s) then digits_value acc s
      else None)"

definition parse_digits :: "string \<Rightarrow> nat option" where
  "parse_digits s = (if s \<noteq> [] \<and> is_digit (hd s) then digits_value 0 s else None)"

definition over_digit_limit :: "nat \<Rightarrow> string \<Rightarrow> bool" where
  "over_digit_limit max_str_digits s =
     (let digits = length (filter is_digit s)
      in 640 < digits \<and> 0 < max_str_digits \<and> max_str_digits < digits)"

definition ascii_int :: "nat \<Rightarrow> string \<Rightarrow> int option" where
  "ascii_int max_str_digits s =
     (case strip s of
        [] \<Rightarrow> None
      | c # r \<Rightarrow>
          if over_digit_limit max_str_digits (c # r) then None
          else if c = CHR ''-'' then map_option (\<lambda>n. - int n) (parse_digits r)
          else if c = CHR ''+'' then map_option int (parse_digits r)
          else map_option int (parse_digits (c # r)))"

definition py_int :: "python \<Rightarrow> string \<Rightarrow> int option" where
  "py_int py s =
     (if is_ascii s then ascii_int (int_max_str_digits py) s else unicode_int py s)"

subsection \<open>Data\<close>

text \<open>
  A listing as the bot reads it: \<^verbatim>\<open>item.get('item', {}).get('id', d)\<close>,
  \<^verbatim>\<open>item.get('seller', {}).get('name', d)\<close> and \<^verbatim>\<open>item.get('price', d)\<close>. A field
  is \<open>None\<close> when the key (or the dictionary around it) is missing, which is when
  Python takes the default \<open>d\<close>. A price that is present is an integer; JSON of any
  other shape is outside the model.
\<close>

record listing =
  item_id :: "string option"
  seller_name :: "string option"
  price :: "int option"

text \<open>
  The JSON body of a listing page, \<^verbatim>\<open>{status, result | message}\<close>; the searches read
  the key \<^verbatim>\<open>result\<close> only.
\<close>

record payload =
  result :: "listing list option"

text \<open>
  What \<^verbatim>\<open>requests.get\<close> does for one URL: it raises a \<^verbatim>\<open>RequestException\<close>, or
  it gives a response with a status code, a body text and the outcome of \<^verbatim>\<open>.json()\<close>,
  which is a \<^verbatim>\<open>ValueError\<close> (\<open>Inl\<close>) or the parsed payload (\<open>Inr\<close>).
\<close>

datatype 'a http_outcome =
  RequestException string
| Response int string "string + 'a"

datatype log_record = WARNING string | ERROR string

datatype event = Request string | Log log_record

datatype button = InlineKeyboardButton string string

datatype markup = InlineKeyboardMarkup "button list list"

text \<open>
  The calls to the chat platform, all with \<^verbatim>\<open>parse_mode='MarkdownV2'\<close>:
  \<^verbatim>\<open>reply_text\<close>, \<^verbatim>\<open>query.answer()\<close> and \<^verbatim>\<open>query.edit_message_text\<close>.
  The platform is taken to accept every call, so the \<^verbatim>\<open>try ... except: pass\<close> around
  the last edit of \<^verbatim>\<open>button_handler\<close> has no branch of its own here.
\<close>

datatype action =
  ReplyText string "markup option"
| Answer
| EditMessageText string "markup option"

datatype py_error = ValueError

datatype outcome = Returned "action list" | Raised py_error "action list"

text \<open>An entry of \<^verbatim>\<open>context.chat_data\<close>: \<^verbatim>\<open>{'term': ..., 'results': ...}\<close>.\<close>

record cached =
  cached_term :: string
  cached_results :: "listing list"

type_synonym chat_data = "string \<rightharpoonup> cached"

subsection \<open>API client\<close>

definition BASE_URL :: string where
  "BASE_URL = ''https://api.donutsmp.net/v1''"

definition ITEMS_PER_PAGE :: int where
  "ITEMS_PER_PAGE = 10"

definition make_api_request :: "(string \<Rightarrow> 'a http_outcome) \<Rightarrow> string \<Rightarrow> 'a option \<times> event list" where
  "make_api_request remote endpoint =
     (case remote (BASE_URL @ endpoint) of
        RequestException e \<Rightarrow>
          (None, [Request (BASE_URL @ endpoint),
                  Log (ERROR (''Failed to call API endpoint '' @ endpoint @ '': '' @ e))])
      | Response status_code text js \<Rightarrow>
          if status_code = 200 \<or> status_code = 500 then
            (case js of
               Inl e \<Rightarrow>
                 (None, [Request (BASE_URL @ endpoint),
                         Log (ERROR (''Failed to call API endpoint '' @ endpoint @ '': '' @ e))])
             | Inr d \<Rightarrow> (Some d, [Request (BASE_URL @ endpoint)]))
          else if status_code = 404 then (None, [Request (BASE_URL @ endpoint)])
          else
            (None, [Request (BASE_URL @ endpoint),
                    Log (WARNING (''API Error on '' @ endpoint @ '': '' @ str_int status_code @
                                  '' - '' @ text))]))"

subsection \<open>Formatter\<close>

definition bs :: string where
  "bs = [CHR 0x5C]"

definition escape_chars :: string where
  "escape_chars = ''_*[]()~`>#+-=|{}.!''"

definition escape_markdown :: "string \<Rightarrow> string" where
  "escape_markdown text = concat (map (\<lambda>c. if c \<in> set escape_chars then bs @ [c] else [c]) text)"

definition format_item_id :: "python \<Rightarrow> string \<Rightarrow> string" where
  "format_item_id py s = title py (replace (replace s ''minecraft:'' '''') ''_'' '' '')"

definition get_or :: "'a option \<Rightarrow> 'a \<Rightarrow> 'a" where
  "get_or field dflt = (case field of None \<Rightarrow> dflt | Some v \<Rightarrow> v)"

subsection \<open>Page renderer\<close>

text \<open>
  \<^verbatim>\<open>xs[i:j]\<close>: a negative bound counts from the end, each bound is clamped to the
  list, and the slice is empty when the bounds cross.
\<close>

definition slice_bound :: "int \<Rightarrow> int \<Rightarrow> int" where
  "slice_bound n i = (if i < 0 then max 0 (i + n) else min i n)"

definition py_slice :: "'a list \<Rightarrow> int \<Rightarrow> int \<Rightarrow> 'a list" where
  "py_slice xs i j =
     (let n = int (length xs); a = slice_bound n i; b = slice_bound n j
      in take (nat (b - a)) (drop (nat a) xs))"

definition page_items :: "listing list \<Rightarrow> int \<Rightarrow> listing list" where
  "page_items sorted_items page_index =
     (let start_index = page_index * ITEMS_PER_PAGE;
          end_index = start_index + ITEMS_PER_PAGE
      in py_slice sorted_items start_index end_index)"

definition item_line :: "python \<Rightarrow> listing \<Rightarrow> string" where
  "item_line py item =
     (let item_name = escape_markdown (format_item_id py (get_or (item_id item) ''Unknown''));
          seller = escape_markdown (get_or (seller_name item) ''Unknown'');
          price = format_commas (get_or (price item) 0)
      in ''`'' @ item_name @ ''` from *'' @ seller @ ''* for '' @ bs @ ''`$'' @
         escape_markdown price @ bs @ ''`'' @ bs @ ''.'')"

definition page_header :: "string \<Rightarrow> listing list \<Rightarrow> int \<Rightarrow> string" where
  "page_header search_term sorted_items page_index =
     ''Found *'' @ str_int (int (length sorted_items)) @ ''* match'' @ bs @ ''(es'' @ bs @
     '') for `'' @ escape_markdown search_term @ ''`'' @ bs @ ''. Page '' @
     str_int (page_index + 1) @ '':''"

text \<open>The button labels carry an arrow emoji, written here as its UTF-8 bytes.\<close>

definition previous_label :: string where
  "previous_label = [CHR 0xE2, CHR 0xAC, CHR 0x85, CHR 0xEF, CHR 0xB8, CHR 0x8F] @ '' Previous''"

definition next_label :: string where
  "next_label = ''Next '' @ [CHR 0xE2, CHR 0x9E, CHR 0xA1, CHR 0xEF, CHR 0xB8, CHR 0x8F]"

definition callback_data :: "string \<Rightarrow> int \<Rightarrow> string" where
  "callback_data search_id page_index = ''ah:'' @ search_id @ '':'' @ str_int page_index"

definition build_ah_page :: "python \<Rightarrow> string \<Rightarrow> string \<Rightarrow> listing list \<Rightarrow> int \<Rightarrow> string \<times> markup" where
  "build_ah_page py search_id search_term sorted_items page_index =
     (let start_index = page_index * ITEMS_PER_PAGE;
          end_index = start_index + ITEMS_PER_PAGE;
          message_parts =
            page_header search_term sorted_items page_index #
            map (item_line py) (page_items sorted_items page_index);
          message_text = join [CHR 0x0A] message_parts;
          buttons =
            (if page_index > 0
             then [InlineKeyboardButton previous_label (callback_data search_id (page_index - 1))]
             else []) @
            (if end_index < int (length sorted_items)
             then [InlineKeyboardButton next_label (callback_data search_id (page_index + 1))]
             else [])
      in (message_text, InlineKeyboardMarkup [buttons]))"

subsection \<open>Search aggregator\<close>

text \<open>
  The sort key \<^verbatim>\<open>x.get('price', float('inf'))\<close>: the integer price, or positive
  infinity for a listing without one. Python orders every integer below infinity.
\<close>

datatype key = Num int | PosInf

instantiation key :: linorder
begin

fun less_eq_key :: "key \<Rightarrow> key \<Rightarrow> bool" where
  "less_eq_key (Num a) (Num b) = (a \<le> b)"
| "less_eq_key (Num a) PosInf = True"
| "less_eq_key PosInf (Num b) = False"
| "less_eq_key PosInf PosInf = True"

definition less_key :: "key \<Rightarrow> key \<Rightarrow> bool" where
  "less_key x y = (x \<le> y \<and> \<not> y \<le> (x :: key))"

instance
proof
  fix x y z :: key
  show "(x < y) = (x \<le> y \<and> \<not> y \<le> x)"
    by (simp add: less_key_def)
  show "x \<le> x"
    by (cases x) simp_all
  show "x \<le> y \<Longrightarrow> y \<le> z \<Longrightarrow> x \<le> z"
    by (cases x; cases y; cases z) simp_all
  show "x \<le> y \<Longrightarrow> y \<le> x \<Longrightarrow> x = y"
    by (cases x; cases y) simp_all
  show "x \<le> y \<or> y \<le> x"
    by (cases x; cases y) auto
qed

end

definition price_key :: "listing \<Rightarrow> key" where
  "price_key x = (case price x of None \<Rightarrow> PosInf | Some p \<Rightarrow> Num p)"

text \<open>
  \<^verbatim>\<open>sorted(matching_items, key=...)\<close>: Python's sort is stable; the model is the
  stable insertion sort \<^const>\<open>sort_key\<close>.
\<close>

definition sorted_by_price :: "listing list \<Rightarrow> listing list" where
  "sorted_by_price matching_items = sort_key price_key matching_items"

text \<open>
  \<^verbatim>\<open>min(xs, key=...)\<close> on a list with first element \<open>best\<close>: the running best is
  replaced only by an element with a strictly smaller key.
\<close>

fun min_from :: "('a \<Rightarrow> 'k::linorder) \<Rightarrow> 'a \<Rightarrow> 'a list \<Rightarrow> 'a" where
  "min_from k best [] = best"
| "min_from k best (x # xs) = min_from k (if k x < k best then x else best) xs"

text \<open>
  The test of the inner loop:
  \<^verbatim>\<open>search_term in format_item_id(item.get('item', {}).get('id', '')).lower()\<close>.
\<close>

definition matches :: "python \<Rightarrow> string \<Rightarrow> listing \<Rightarrow> bool" where
  "matches py search_term item =
     py_in search_term (lower py (format_item_id py (get_or (item_id item) '''')))"

text \<open>
  One step of either scan: \<^verbatim>\<open>data = make_api_request(f"/auction/list/{page}")\<close> and
  \<^verbatim>\<open>auctions = data.get('result') if data else None\<close>.
\<close>

definition fetch_auctions ::
  "(string \<Rightarrow> payload http_outcome) \<Rightarrow> int \<Rightarrow> listing list option \<times> event list" where
  "fetch_auctions remote page =
     (case make_api_request remote (''/auction/list/'' @ str_int page) of
        (data, ev) \<Rightarrow> ((case data of None \<Rightarrow> None | Some d \<Rightarrow> result d), ev))"

text \<open>\<^verbatim>\<open>not auctions\<close>: \<open>None\<close> or the empty list.\<close>

definition falsy :: "'a list option \<Rightarrow> bool" where
  "falsy auctions = (auctions = None \<or> auctions = Some [])"

text \<open>
  The loop of \<^verbatim>\<open>ah_command\<close>, from the state \<open>(page, matching_items)\<close>; \<open>trace\<close>
  collects the requests and log records.
\<close>

function ah_scan ::
  "python \<Rightarrow> (string \<Rightarrow> payload http_outcome) \<Rightarrow> string \<Rightarrow> int \<Rightarrow> listing list \<Rightarrow> event list \<Rightarrow>
   listing list \<times> event list" where
  "ah_scan py remote search_term page matching_items trace =
     (case fetch_auctions remote page of
        (auctions, ev) \<Rightarrow>
          if falsy auctions then (matching_items, trace @ ev)
          else if page + 1 > 100
          then (matching_items @ filter (matches py search_term) (the auctions), trace @ ev)
          else ah_scan py remote search_term (page + 1)
                 (matching_items @ filter (matches py search_term) (the auctions)) (trace @ ev))"
  by pat_completeness auto
termination
  by (relation "measure (\<lambda>(py, remote, search_term, page, matching_items, trace). nat (101 - page))")
     auto

declare ah_scan.simps [simp del]

definition searching_notice :: "string \<Rightarrow> string \<Rightarrow> string" where
  "searching_notice search_term ending =
     [CHR 0xF0, CHR 0x9F, CHR 0x94, CHR 0x8E] @ '' Searching all auctions for `'' @
     escape_markdown search_term @ ''`'' @ bs @ ''. '' @ ending @ bs @ ''.'' @ bs @ ''.'' @
     bs @ ''.''"

definition not_found_text :: "string \<Rightarrow> string" where
  "not_found_text search_term =
     ''Could not find any items matching `'' @ escape_markdown search_term @ ''`'' @ bs @ ''.''"

text \<open>
  \<^verbatim>\<open>ah_command\<close>. \<open>args\<close> is \<^verbatim>\<open>context.args\<close>, and \<open>new_id\<close> is the value of
  \<^verbatim>\<open>str(uuid.uuid4())\<close> in this call.
\<close>

definition ah_command ::
  "python \<Rightarrow> (string \<Rightarrow> payload http_outcome) \<Rightarrow> string \<Rightarrow> chat_data \<Rightarrow> string list \<Rightarrow>
   chat_data \<times> action list \<times> event list" where
  "ah_command py remote new_id chat_data args =
     (if args = [] then (chat_data, [ReplyText ''Usage: `/ah {item name}`'' None], [])
      else
        let search_term = lower py (join '' '' args);
            notice = ReplyText (searching_notice search_term ''This may take a moment'') None
        in case ah_scan py remote search_term 1 [] [] of
             (matching_items, trace) \<Rightarrow>
               if matching_items = []
               then (chat_data, [notice, ReplyText (not_found_text search_term) None], trace)
               else
                 let sorted_items = sorted_by_price matching_items;
                     search_id = new_id;
                     chat_data' = chat_data(search_id \<mapsto>
                       \<lparr>cached_term = search_term, cached_results = sorted_items\<rparr>)
                 in case build_ah_page py search_id search_term sorted_items 0 of
                      (message_text, keyboard) \<Rightarrow>
                        (chat_data', [notice, ReplyText message_text (Some keyboard)], trace))"

text \<open>
  The loop of \<^verbatim>\<open>price_command\<close> has no bound on \<open>page\<close>: it ends only at a page
  without items. \<open>None\<close> is the loop that never ends.
\<close>

partial_function (option) price_scan ::
  "python \<Rightarrow> (string \<Rightarrow> payload http_outcome) \<Rightarrow> string \<Rightarrow> int \<Rightarrow> listing list \<Rightarrow> event list \<Rightarrow>
   (listing list \<times> event list) option" where
  "price_scan py remote search_term page matching_items trace =
     (case fetch_auctions remote page of
        (auctions, ev) \<Rightarrow>
          if falsy auctions then Some (matching_items, trace @ ev)
          else price_scan py remote search_term (page + 1)
                 (matching_items @ filter (matches py search_term) (the auctions)) (trace @ ev))"

declare price_scan.simps [code]

definition lowest_price_message :: "python \<Rightarrow> listing \<Rightarrow> string" where
  "lowest_price_message py lowest_auction =
     (let item_name = escape_markdown (format_item_id py (get_or (item_id lowest_auction) ''Unknown''));
          seller = escape_markdown (get_or (seller_name lowest_auction) ''Unknown'');
          price = format_commas (get_or (price lowest_auction) 0)
      in [CHR 0xF0, CHR 0x9F, CHR 0x92, CHR 0x8E] @ '' *Lowest Price Found*'' @
         [CHR 0x0A, CHR 0x0A] @
         ''Item: `'' @ item_name @ ''`'' @ [CHR 0x0A] @
         ''Seller: *'' @ seller @ ''*'' @ [CHR 0x0A] @
         ''Price: '' @ bs @ ''`$'' @ escape_markdown price @ bs @ ''`'')"

text \<open>
  \<^verbatim>\<open>price_command\<close>; \<open>None\<close> when the scan never ends. \<^verbatim>\<open>min\<close> is reached with a
  non-empty list only.
\<close>

definition price_command ::
  "python \<Rightarrow> (string \<Rightarrow> payload http_outcome) \<Rightarrow> string list \<Rightarrow> (action list \<times> event list) option" where
  "price_command py remote args =
     (if args = [] then Some ([ReplyText ''Usage: `/price {item name}`'' None], [])
      else
        let search_term = lower py (join '' '' args);
            notice = ReplyText (searching_notice search_term ''This will be very slow'') None
        in case price_scan py remote search_term 1 [] [] of
             None \<Rightarrow> None
           | Some (matching_items, trace) \<Rightarrow>
               (case matching_items of
                  [] \<Rightarrow> Some ([notice, ReplyText (not_found_text search_term) None], trace)
                | x # xs \<Rightarrow>
                    let lowest_auction = min_from price_key x xs
                    in Some ([notice, ReplyText (lowest_price_message py lowest_auction) None],
                             trace)))"

subsection \<open>Interaction router\<close>

definition expired_text :: string where
  "expired_text =
     ''This search has expired or is invalid'' @ bs @ ''. Please run the command again'' @ bs @ ''.''"

text \<open>
  \<^verbatim>\<open>button_handler\<close> on the callback data \<open>data\<close>. The unpacking of the split is
  inside \<^verbatim>\<open>try ... except ValueError: return\<close>; \<^verbatim>\<open>int(page_index_str)\<close> is the
  statement after it, outside the \<^verbatim>\<open>try\<close>.
\<close>

definition button_handler :: "python \<Rightarrow> chat_data \<Rightarrow> string \<Rightarrow> chat_data \<times> outcome" where
  "button_handler py chat_data data =
     (case split_colon data of
        [command, search_id, page_index_str] \<Rightarrow>
          (case py_int py page_index_str of
             None \<Rightarrow> (chat_data, Raised ValueError [Answer])
           | Some page_index \<Rightarrow>
               if command = ''ah'' then
                 (case chat_data search_id of
                    None \<Rightarrow> (chat_data, Returned [Answer, EditMessageText expired_text None])
                  | Some cached_data \<Rightarrow>
                      (case build_ah_page py search_id (cached_term cached_data)
                              (cached_results cached_data) page_index of
                         (message_text, keyboard) \<Rightarrow>
                           (chat_data,
                            Returned [Answer, EditMessageText message_text (Some keyboard)])))
               else (chat_data, Returned [Answer]))
      | _ \<Rightarrow> (chat_data, Returned [Answer]))"

subsection \<open>The remote data and the search results, in the words of the specification\<close>

text \<open>
  The listings of remote page \<open>page\<close>; the empty list when the page yields no items
  (no data, no \<^verbatim>\<open>result\<close> or an empty one).
\<close>

definition page_listings :: "(string \<Rightarrow> payload http_outcome) \<Rightarrow> int \<Rightarrow> listing list" where
  "page_listings remote page =
     (case fst (fetch_auctions remote page) of None \<Rightarrow> [] | Some auctions \<Rightarrow> auctions)"

text \<open>
  The normalized item name as the search computes it: every \<^verbatim>\<open>minecraft:\<close> removed,
  every underscore replaced by a space, title-cased and then lower-cased.
\<close>

definition normalized_name :: "python \<Rightarrow> listing \<Rightarrow> string" where
  "normalized_name py item =
     lower py (title py
       (replace (replace (get_or (item_id item) '''') ''minecraft:'' '''') ''_'' '' ''))"


text \<open>
  The pages whose listings count: ascending from 1, up to the first page that yields no
  items, and not beyond page 100.
\<close>

definition scanned_pages :: "(string \<Rightarrow> payload http_outcome) \<Rightarrow> int list" where
  "scanned_pages remote = takeWhile (\<lambda>page. page_listings remote page \<noteq> []) [1..100]"

text \<open>The pages requested: the pages that count and the page after them, if it is \<open>\<le> 100\<close>.\<close>

definition fetched_pages :: "(string \<Rightarrow> payload http_outcome) \<Rightarrow> int list" where
  "fetched_pages remote = take (Suc (length (scanned_pages remote))) [1..100]"

text \<open>The listings of those pages, in remote order, whose normalized name contains the term.\<close>

definition exhaustive_matches :: "python \<Rightarrow> (string \<Rightarrow> payload http_outcome) \<Rightarrow> string \<Rightarrow> listing list" where
  "exhaustive_matches py remote search_term =
     concat (map (\<lambda>page. filter (\<lambda>item. py_in search_term (normalized_name py item))
                          (page_listings remote page))
                 (scanned_pages remote))"

text \<open>The URL of a listing page, and the URLs requested in a trace, in order.\<close>

definition page_url :: "int \<Rightarrow> string" where
  "page_url page = BASE_URL @ ''/auction/list/'' @ str_int page"

fun requests :: "event list \<Rightarrow> string list" where
  "requests [] = []"
| "requests (Request url # es) = url # requests es"
| "requests (Log r # es) = requests es"

text \<open>
  The matches of the pages \<open>1, \<dots>, n - 1\<close> in remote order: what a scan that ends at page
  \<open>n\<close> has collected.
\<close>

definition matches_before :: "python \<Rightarrow> (string \<Rightarrow> payload http_outcome) \<Rightarrow> string \<Rightarrow> int \<Rightarrow> listing list" where
  "matches_before py remote search_term n =
     concat (map (\<lambda>page. filter (\<lambda>item. py_in search_term (normalized_name py item))
                          (page_listings remote page))
                 [1..n - 1])"

subsection \<open>Sample inputs\<close>

text \<open>
  An interpreter for the samples. They are ASCII but for one item id with the letter
  sharp s (U+00DF, the bytes C3 9F), where Python gives
  \<^verbatim>\<open>'\u00df sword'.title() == 'Ss Sword'\<close> and \<^verbatim>\<open>'\u00df sword'.lower() == '\u00df sword'\<close>.
\<close>

definition sample_python :: python where
  "sample_python =
     \<lparr>unicode_lower = (\<lambda>s. s),
      unicode_title =
        (\<lambda>s. if s = [CHR 0xC3, CHR 0x9F] @ '' sword'' then ''Ss Sword'' else s),
      unicode_int = (\<lambda>s. None),
      int_max_str_digits = 4300\<rparr>"



definition numbered :: "int \<Rightarrow> listing" where
  "numbered i =
     \<lparr>item_id = Some ''minecraft:diamond_sword'', seller_name = Some ''Steve'', price = Some i\<rparr>"

definition sample_chat :: chat_data where
  "sample_chat =
     Map.empty(''s'' \<mapsto> \<lparr>cached_term = ''sword'', cached_results = map numbered [0..24]\<rparr>)"

definition offer :: "string \<Rightarrow> string \<Rightarrow> int option \<Rightarrow> listing" where
  "offer i s p = \<lparr>item_id = Some i, seller_name = Some s, price = p\<rparr>"

definition sample_remote :: "string \<Rightarrow> payload http_outcome" where
  "sample_remote url =
     (if url = ''https://api.donutsmp.net/v1/auction/list/1'' then
        Response 200 ''page 1''
          (Inr \<lparr>result = Some [offer ''minecraft:diamond_sword'' ''a'' (Some 500),
                                offer ''minecraft:dirt'' ''b'' (Some 1),
                                offer ''minecraft:iron_sword'' ''c'' None]\<rparr>)
      else if url = ''https://api.donutsmp.net/v1/auction/list/2'' then
        Response 500 ''page 2''
          (Inr \<lparr>result = Some [offer ''minecraft:Diamond_Sword'' ''d'' (Some 100),
                                offer ''wooden_sword'' ''e'' (Some 100)]\<rparr>)
      else if url = ''https://api.donutsmp.net/v1/auction/list/3'' then
        Response 404 ''no such page'' (Inl ''no JSON'')
      else
        Response 200 ''later page''
          (Inr \<lparr>result = Some [offer ''minecraft:diamond_sword'' ''z'' (Some 1)]\<rparr>))"

definition endless_remote :: "string \<Rightarrow> payload http_outcome" where
  "endless_remote url =
     Response 200 ''a page''
       (Inr \<lparr>result = Some [offer ''minecraft:diamond_sword'' ''z'' (Some 1)]\<rparr>)"

section \<open>Properties\<close>

subsection \<open>Page renderer\<close>

lemma py_slice_page:
  assumes "0 \<le> p"
  shows "py_slice xs (p * 10) (p * 10 + 10) = take 10 (drop (10 * nat p) xs)"
proof (cases "p * 10 < int (length xs)")
  case True
  then have a: "slice_bound (int (length xs)) (p * 10) = p * 10"
    using assms by (simp add: slice_bound_def)
  show ?thesis
  proof (cases "p * 10 + 10 \<le> int (length xs)")
    case True
    then have "slice_bound (int (length xs)) (p * 10 + 10) = p * 10 + 10"
      using assms by (simp add: slice_bound_def)
    with a show ?thesis
      using assms by (simp add: py_slice_def Let_def nat_mult_distrib mult.commute)
  next
    case False
    then have "slice_bound (int (length xs)) (p * 10 + 10) = int (length xs)"
      using assms by (simp add: slice_bound_def)
    with a False True show ?thesis
      using assms by (simp add: py_slice_def Let_def nat_mult_distrib mult.commute nat_diff_distrib)
  qed
next
  case False
  then have "slice_bound (int (length xs)) (p * 10) = int (length xs)"
    and "slice_bound (int (length xs)) (p * 10 + 10) = int (length xs)"
    using assms by (simp_all add: slice_bound_def)
  moreover have "length xs \<le> 10 * nat p"
    using False assms by linarith
  ultimately show ?thesis
    by (simp add: py_slice_def Let_def)
qed

lemma page_items_take_drop:
  "0 \<le> page_index \<Longrightarrow>
   page_items sorted_items page_index = take 10 (drop (10 * nat page_index) sorted_items)"
  by (simp add: page_items_def ITEMS_PER_PAGE_def Let_def py_slice_page)

lemma build_ah_page_eq:
  "0 \<le> page_index \<Longrightarrow>
   build_ah_page py search_id search_term sorted_items page_index =
     (join [CHR 0x0A]
        (page_header search_term sorted_items page_index #
         map (item_line py) (take 10 (drop (10 * nat page_index) sorted_items))),
      InlineKeyboardMarkup
        [(if 0 < page_index
          then [InlineKeyboardButton previous_label (callback_data search_id (page_index - 1))]
          else []) @
         (if page_index * 10 + 10 < int (length sorted_items)
          then [InlineKeyboardButton next_label (callback_data search_id (page_index + 1))]
          else [])])"
  by (simp add: build_ah_page_def Let_def ITEMS_PER_PAGE_def page_items_take_drop)

text \<open>
  C3. For a page index \<open>\<ge> 0\<close> the renderer shows the items
  \<open>[page_index * 10, page_index * 10 + 10)\<close> of the sorted results, below the header line;
  the keyboard row holds a "previous" button (aimed at \<open>page_index - 1\<close>) exactly when
  \<open>page_index > 0\<close>, followed by a "next" button (aimed at \<open>page_index + 1\<close>) exactly when
  \<open>page_index * 10 + 10\<close> is below the number of results. With 25 results, page 0 has
  10 items and only "next", page 1 has 10 items and both buttons, page 2 has 5 items and
  only "previous".
\<close>

theorem build_ah_page_paging:
  "0 \<le> page_index \<Longrightarrow>
   page_items sorted_items page_index = take 10 (drop (10 * nat page_index) sorted_items) \<and>
   build_ah_page py search_id search_term sorted_items page_index =
     (join [CHR 0x0A]
        (page_header search_term sorted_items page_index #
         map (item_line py) (take 10 (drop (10 * nat page_index) sorted_items))),
      InlineKeyboardMarkup
        [(if 0 < page_index
          then [InlineKeyboardButton previous_label (callback_data search_id (page_index - 1))]
          else []) @
         (if page_index * 10 + 10 < int (length sorted_items)
          then [InlineKeyboardButton next_label (callback_data search_id (page_index + 1))]
          else [])]) \<and>
   (length sorted_items = 25 \<longrightarrow>
      length (page_items sorted_items 0) = 10 \<and>
      snd (build_ah_page py search_id search_term sorted_items 0) =
        InlineKeyboardMarkup [[InlineKeyboardButton next_label (callback_data search_id 1)]] \<and>
      length (page_items sorted_items 1) = 10 \<and>
      snd (build_ah_page py search_id search_term sorted_items 1) =
        InlineKeyboardMarkup [[InlineKeyboardButton previous_label (callback_data search_id 0),
                               InlineKeyboardButton next_label (callback_data search_id 2)]] \<and>
      length (page_items sorted_items 2) = 5 \<and>
      snd (build_ah_page py search_id search_term sorted_items 2) =
        InlineKeyboardMarkup [[InlineKeyboardButton previous_label (callback_data search_id 1)]])"
proof (intro conjI impI)
  assume p: "0 \<le> page_index"
  show "page_items sorted_items page_index = take 10 (drop (10 * nat page_index) sorted_items)"
    using p by (rule page_items_take_drop)
  show "build_ah_page py search_id search_term sorted_items page_index =
     (join [CHR 0x0A]
        (page_header search_term sorted_items page_index #
         map (item_line py) (take 10 (drop (10 * nat page_index) sorted_items))),
      InlineKeyboardMarkup
        [(if 0 < page_index
          then [InlineKeyboardButton previous_label (callback_data search_id (page_index - 1))]
          else []) @
         (if page_index * 10 + 10 < int (length sorted_items)
          then [InlineKeyboardButton next_label (callback_data search_id (page_index + 1))]
          else [])])"
    using p by (rule build_ah_page_eq)
next
  assume n: "length sorted_items = 25"
  show "length (page_items sorted_items 0) = 10"
    using n by (simp add: page_items_take_drop)
  show "length (page_items sorted_items 1) = 10"
    using n by (simp add: page_items_take_drop)
  show "length (page_items sorted_items 2) = 5"
    using n by (simp add: page_items_take_drop)
  show "snd (build_ah_page py search_id search_term sorted_items 0) =
        InlineKeyboardMarkup [[InlineKeyboardButton next_label (callback_data search_id 1)]]"
    using n by (simp add: build_ah_page_eq)
  show "snd (build_ah_page py search_id search_term sorted_items 1) =
        InlineKeyboardMarkup [[InlineKeyboardButton previous_label (callback_data search_id 0),
                               InlineKeyboardButton next_label (callback_data search_id 2)]]"
    using n by (simp add: build_ah_page_eq)
  show "snd (build_ah_page py search_id search_term sorted_items 2) =
        InlineKeyboardMarkup [[InlineKeyboardButton previous_label (callback_data search_id 1)]]"
    using n by (simp add: build_ah_page_eq)
qed

theorem build_ah_page_paging_witness:
  "(0::int) \<le> 1 \<and>
   page_items (map numbered [0..24]) 1 = map numbered [10..19] \<and>
   snd (build_ah_page sample_python ''s'' ''sword'' (map numbered [0..24]) 1) =
     InlineKeyboardMarkup [[InlineKeyboardButton previous_label ''ah:s:0'',
                            InlineKeyboardButton next_label ''ah:s:2'']] \<and>
   length (map numbered [0..24]) = 25 \<and>
   length (page_items (map numbered [0..24]) 2) = 5"
proof -
  have l: "length (map numbered [0..24]) = 25"
    by simp
  have t: "take 10 (drop (10 * nat 1) (map numbered [0..24])) = map numbered [10..19]"
    by code_simp
  have c: "callback_data ''s'' 0 = ''ah:s:0''" "callback_data ''s'' 2 = ''ah:s:2''"
    by code_simp+
  show ?thesis
    using build_ah_page_paging [of 1 "map numbered [0..24]" sample_python "''s''" "''sword''"] l t c
    by simp
qed

text \<open>
  C8 (as the code has it). When the slice start \<open>page_index * 10\<close> lies at or beyond the
  end of the results, the renderer still returns a page: it shows the header line and no
  item, and it never offers a "next" button. The "previous" button follows its usual rule:
  it is offered exactly when \<open>page_index > 0\<close>, so only an out-of-range request for page 0
  (an empty result list) has an empty keyboard row.
\<close>

theorem build_ah_page_out_of_range:
  "int (length sorted_items) \<le> page_index * 10 \<Longrightarrow>
   page_items sorted_items page_index = [] \<and>
   build_ah_page py search_id search_term sorted_items page_index =
     (page_header search_term sorted_items page_index,
      InlineKeyboardMarkup
        [if 0 < page_index
         then [InlineKeyboardButton previous_label (callback_data search_id (page_index - 1))]
         else []])"
proof -
  assume r: "int (length sorted_items) \<le> page_index * 10"
  then have p: "0 \<le> page_index"
    by linarith
  have d: "drop (10 * nat page_index) sorted_items = []"
    using r p by simp
  show ?thesis
    using r by (simp add: build_ah_page_eq [OF p] page_items_take_drop [OF p] d)
qed

theorem build_ah_page_out_of_range_witness:
  "int (length [numbered 1]) \<le> 1 * 10 \<and>
   page_items [numbered 1] 1 = [] \<and>
   build_ah_page sample_python ''s'' ''sword'' [numbered 1] 1 =
     (page_header ''sword'' [numbered 1] 1,
      InlineKeyboardMarkup [[InlineKeyboardButton previous_label (callback_data ''s'' 0)]])"
  using build_ah_page_out_of_range [of "[numbered 1]" 1 sample_python "''s''" "''sword''"] by simp

text \<open>
  The claim as worded fails: one result, page index 1. The slice is empty, and the
  keyboard row is not empty, it holds the "previous" button aimed at page 0.
\<close>

theorem build_ah_page_out_of_range_counterexample:
  "int (length [numbered 1]) \<le> 1 * 10 \<and>
   page_items [numbered 1] 1 = [] \<and>
   snd (build_ah_page sample_python ''s'' ''sword'' [numbered 1] 1) =
     InlineKeyboardMarkup [[InlineKeyboardButton previous_label ''ah:s:0'']] \<and>
   snd (build_ah_page sample_python ''s'' ''sword'' [numbered 1] 1) \<noteq> InlineKeyboardMarkup [[]]"
proof -
  have "page_items [numbered 1] 1 = []"
    by code_simp
  moreover have "snd (build_ah_page sample_python ''s'' ''sword'' [numbered 1] 1) =
     InlineKeyboardMarkup [[InlineKeyboardButton previous_label ''ah:s:0'']]"
    by code_simp
  ultimately show ?thesis
    by simp
qed

subsection \<open>Interaction router\<close>

lemma button_handler_other_arity:
  "length (split_colon data) \<noteq> 3 \<Longrightarrow> button_handler py chat_data data = (chat_data, Returned [Answer])"
  by (auto simp: button_handler_def split: list.splits)

lemma button_handler_other_command:
  "split_colon data = [command, search_id, page_index_str] \<Longrightarrow>
   py_int py page_index_str = Some page_index \<Longrightarrow> command \<noteq> ''ah'' \<Longrightarrow>
   button_handler py chat_data data = (chat_data, Returned [Answer])"
  by (simp add: button_handler_def)

text \<open>A control character before the digits is not whitespace for \<^verbatim>\<open>int\<close>.\<close>

lemma py_int_file_separator: "py_int py (CHR 0x1C # ''1'') = None"
proof -
  have d: "strip (CHR 0x1C # ''1'') = CHR 0x1C # ''1''"
    "filter is_digit (CHR 0x1C # ''1'') = ''1''"
    "parse_digits (CHR 0x1C # ''1'') = None"
    by code_simp+
  show ?thesis
    by (simp add: py_int_def ascii_int_def over_digit_limit_def d)
qed

lemma button_handler_state: "fst (button_handler py chat_data data) = chat_data"
  by (auto simp: button_handler_def split: list.splits option.splits prod.splits)

text \<open>
  C5, at the input where the code leaves the claim. The callback data \<^verbatim>\<open>ah:abc:xyz\<close>
  splits into three fields, so the \<^verbatim>\<open>except ValueError\<close> around the unpacking is not
  taken; \<^verbatim>\<open>int('xyz')\<close> then raises \<^verbatim>\<open>ValueError\<close> out of the handler, after
  \<^verbatim>\<open>query.answer()\<close>.
\<close>

theorem button_handler_non_integer_page_raises:
  "button_handler py chat_data ''ah:abc:xyz'' = (chat_data, Raised ValueError [Answer])"
proof -
  have s: "split_colon ''ah:abc:xyz'' = [''ah'', ''abc'', ''xyz'']"
    by code_simp
  have d: "strip ''xyz'' = ''xyz''" "filter is_digit ''xyz'' = []" "parse_digits ''xyz'' = None"
    by code_simp+
  have i: "py_int py ''xyz'' = None"
    by (simp add: py_int_def ascii_int_def over_digit_limit_def d)
  show ?thesis
    by (simp add: button_handler_def s i)
qed

text \<open>
  C7. A navigation token is the callback data the renderer writes:
  \<^verbatim>\<open>ah:<search_id>:<page index>\<close>, with a page index that \<^verbatim>\<open>int\<close> accepts. When
  such a token names a search that is not in
  \<^verbatim>\<open>chat_data\<close>, the handler answers the query, replaces the message by the
  "expired or invalid" text without a keyboard, does nothing else, leaves \<^verbatim>\<open>chat_data\<close>
  as it was, and returns.
\<close>

theorem button_handler_cache_miss:
  "split_colon data = [''ah'', search_id, page_index_str] \<Longrightarrow>
   py_int py page_index_str = Some page_index \<Longrightarrow>
   chat_data search_id = None \<Longrightarrow>
   button_handler py chat_data data =
     (chat_data, Returned [Answer, EditMessageText expired_text None])"
  by (simp add: button_handler_def)

theorem button_handler_cache_miss_witness:
  "split_colon ''ah:abc:1'' = [''ah'', ''abc'', ''1''] \<and>
   py_int sample_python ''1'' = Some 1 \<and>
   sample_chat ''abc'' = None \<and>
   sample_chat ''s'' \<noteq> None \<and>
   button_handler sample_python sample_chat ''ah:abc:1'' =
     (sample_chat, Returned [Answer, EditMessageText expired_text None])"
proof -
  have s: "split_colon ''ah:abc:1'' = [''ah'', ''abc'', ''1'']"
    by code_simp
  have i: "py_int sample_python ''1'' = Some 1"
    by code_simp
  have c: "sample_chat ''abc'' = None" "sample_chat ''s'' \<noteq> None"
    by (simp_all add: sample_chat_def)
  show ?thesis
    using button_handler_cache_miss
      [of "''ah:abc:1''" "''abc''" "''1''" sample_python 1 sample_chat, OF s i c(1)] s i c
    by simp
qed

text \<open>
  C9. Handling a callback leaves \<^verbatim>\<open>chat_data\<close> as it was, so handling the same
  callback again gives the same outcome. For a token \<^verbatim>\<open>ah:<search_id>:<page index>\<close> of
  a cached search the outcome is the edit of the message to the text and keyboard that
  \<^verbatim>\<open>build_ah_page\<close> computes from the search id, the cached term, the cached results
  and the page index, and from nothing else.
\<close>

theorem button_handler_idempotent:
  "fst (button_handler py chat_data data) = chat_data \<and>
   button_handler py (fst (button_handler py chat_data data)) data = button_handler py chat_data data \<and>
   (split_colon data = [''ah'', search_id, page_index_str] \<and>
    py_int py page_index_str = Some page_index \<and>
    chat_data search_id = Some cached_data \<longrightarrow>
    snd (button_handler py chat_data data) =
      Returned
        [Answer,
         EditMessageText
           (fst (build_ah_page py search_id (cached_term cached_data)
                   (cached_results cached_data) page_index))
           (Some (snd (build_ah_page py search_id (cached_term cached_data)
                         (cached_results cached_data) page_index)))])"
  by (simp add: button_handler_state) (simp add: button_handler_def split: prod.splits)

theorem button_handler_idempotent_witness:
  "split_colon ''ah:s:1'' = [''ah'', ''s'', ''1''] \<and>
   py_int sample_python ''1'' = Some 1 \<and>
   sample_chat ''s'' = Some \<lparr>cached_term = ''sword'', cached_results = map numbered [0..24]\<rparr> \<and>
   snd (button_handler sample_python (fst (button_handler sample_python sample_chat ''ah:s:1'')) ''ah:s:1'') =
     Returned
       [Answer,
        EditMessageText
          (fst (build_ah_page sample_python ''s'' ''sword'' (map numbered [0..24]) 1))
          (Some (snd (build_ah_page sample_python ''s'' ''sword'' (map numbered [0..24]) 1)))]"
proof -
  have s: "split_colon ''ah:s:1'' = [''ah'', ''s'', ''1'']"
    by code_simp
  have i: "py_int sample_python ''1'' = Some 1"
    by code_simp
  have c: "sample_chat ''s'' =
      Some \<lparr>cached_term = ''sword'', cached_results = map numbered [0..24]\<rparr>"
    by (simp add: sample_chat_def)
  show ?thesis
    using button_handler_idempotent [of sample_python sample_chat "''ah:s:1''" "''s''" "''1''" 1
        "\<lparr>cached_term = ''sword'', cached_results = map numbered [0..24]\<rparr>"] s i c
    by simp
qed

subsection \<open>API client\<close>

text \<open>
  C6. What \<^verbatim>\<open>make_api_request\<close> returns and logs, by the outcome of the GET:
  \<^item> status 200 or 500 with a body that parses: the parsed payload, nothing logged;
  \<^item> status 404: no data, nothing logged;
  \<^item> any other status: no data, and one record logged, \<^verbatim>\<open>"API Error on ..."\<close> with the
    status and the body text (the code logs it with \<^verbatim>\<open>logger.warning\<close>);
  \<^item> a transport failure, or status 200 or 500 with a body that does not parse: no data,
    and one record logged with \<^verbatim>\<open>logger.error\<close>.
  Each call sends exactly one request.
\<close>

theorem make_api_request_contract:
  "((status_code = 200 \<or> status_code = 500) \<and>
    remote (BASE_URL @ endpoint) = Response status_code text (Inr d) \<longrightarrow>
      make_api_request remote endpoint = (Some d, [Request (BASE_URL @ endpoint)])) \<and>
   (remote (BASE_URL @ endpoint) = Response 404 text js \<longrightarrow>
      make_api_request remote endpoint = (None, [Request (BASE_URL @ endpoint)])) \<and>
   (status_code \<noteq> 200 \<and> status_code \<noteq> 500 \<and> status_code \<noteq> 404 \<and>
    remote (BASE_URL @ endpoint) = Response status_code text js \<longrightarrow>
      make_api_request remote endpoint =
        (None, [Request (BASE_URL @ endpoint),
                Log (WARNING (''API Error on '' @ endpoint @ '': '' @ str_int status_code @
                              '' - '' @ text))])) \<and>
   (remote (BASE_URL @ endpoint) = RequestException e \<longrightarrow>
      make_api_request remote endpoint =
        (None, [Request (BASE_URL @ endpoint),
                Log (ERROR (''Failed to call API endpoint '' @ endpoint @ '': '' @ e))])) \<and>
   ((status_code = 200 \<or> status_code = 500) \<and>
    remote (BASE_URL @ endpoint) = Response status_code text (Inl e) \<longrightarrow>
      make_api_request remote endpoint =
        (None, [Request (BASE_URL @ endpoint),
                Log (ERROR (''Failed to call API endpoint '' @ endpoint @ '': '' @ e))]))"
  by (auto simp: make_api_request_def)

theorem make_api_request_contract_witness:
  "make_api_request (\<lambda>url. Response 500 ''{}'' (Inr \<lparr>result = Some [numbered 1]\<rparr>)) ''/auction/list/1'' =
     (Some \<lparr>result = Some [numbered 1]\<rparr>, [Request (BASE_URL @ ''/auction/list/1'')]) \<and>
   make_api_request (\<lambda>url. Response 404 ''none'' (Inl ''no JSON'' :: string + payload))
       ''/auction/list/1'' =
     (None, [Request (BASE_URL @ ''/auction/list/1'')]) \<and>
   make_api_request (\<lambda>url. Response 503 ''down'' (Inl ''no JSON'' :: string + payload))
       ''/auction/list/1'' =
     (None, [Request (BASE_URL @ ''/auction/list/1''),
             Log (WARNING ''API Error on /auction/list/1: 503 - down'')]) \<and>
   make_api_request (\<lambda>url. RequestException ''timed out'' :: payload http_outcome)
       ''/auction/list/1'' =
     (None, [Request (BASE_URL @ ''/auction/list/1''),
             Log (ERROR ''Failed to call API endpoint /auction/list/1: timed out'')]) \<and>
   make_api_request (\<lambda>url. Response 200 ''<html>'' (Inl ''no JSON'' :: string + payload))
       ''/auction/list/1'' =
     (None, [Request (BASE_URL @ ''/auction/list/1''),
             Log (ERROR ''Failed to call API endpoint /auction/list/1: no JSON'')])"
proof -
  have n: "str_int 503 = ''503''"
    by code_simp
  show ?thesis
    using
      make_api_request_contract [of 500 "\<lambda>url. Response 500 ''{}'' (Inr \<lparr>result = Some [numbered 1]\<rparr>)"
        "''/auction/list/1''" "''{}''" "\<lparr>result = Some [numbered 1]\<rparr>"]
      make_api_request_contract [of 404
        "\<lambda>url. Response 404 ''none'' (Inl ''no JSON'' :: string + payload)"
        "''/auction/list/1''" "''none''" _ "Inl ''no JSON''"]
      make_api_request_contract [of 503
        "\<lambda>url. Response 503 ''down'' (Inl ''no JSON'' :: string + payload)"
        "''/auction/list/1''" "''down''" _ "Inl ''no JSON''"]
      make_api_request_contract [of 200
        "\<lambda>url. RequestException ''timed out'' :: payload http_outcome"
        "''/auction/list/1''" _ _ _ "''timed out''"]
      make_api_request_contract [of 200
        "\<lambda>url. Response 200 ''<html>'' (Inl ''no JSON'' :: string + payload)"
        "''/auction/list/1''" "''<html>''" _ _ "''no JSON''"]
      n
    by simp
qed

subsection \<open>Result ordering\<close>

lemma price_key_le_iff:
  "price_key x \<le> price_key y \<longleftrightarrow>
     (case price y of None \<Rightarrow> True | Some q \<Rightarrow> (case price x of None \<Rightarrow> False | Some p \<Rightarrow> p \<le> q))"
  by (simp add: price_key_def split: option.splits)

lemma priced_before_unpriced:
  assumes "sorted (map price_key r)" "i < length r" "j < length r"
    "price (r ! i) \<noteq> None" "price (r ! j) = None"
  shows "i < j"
proof (rule ccontr)
  assume "\<not> i < j"
  then have "j \<le> i"
    by simp
  then have "map price_key r ! j \<le> map price_key r ! i"
    using assms(1,2) by (simp add: sorted_iff_nth_mono)
  then have "price_key (r ! j) \<le> price_key (r ! i)"
    using assms(2,3) by simp
  then show False
    using assms(4,5) by (simp add: price_key_le_iff split: option.splits)
qed

text \<open>
  C4. The results are in ascending order of the sort key, they are the matching listings
  (each as often as it matched), and listings with equal keys keep the order in which
  they were met. The key of a priced listing is its price, ordered as integers, and lies
  strictly below the key of every listing without a price, so in the results every
  priced listing stands before every unpriced one.
\<close>

theorem sorted_by_price_order:
  "sorted (map price_key (sorted_by_price matching_items)) \<and>
   mset (sorted_by_price matching_items) = mset matching_items \<and>
   (\<forall>k. filter (\<lambda>x. price_key x = k) (sorted_by_price matching_items) =
        filter (\<lambda>x. price_key x = k) matching_items) \<and>
   (\<forall>x y p q. price x = Some p \<and> price y = Some q \<longrightarrow>
        (price_key x \<le> price_key y) = (p \<le> q)) \<and>
   (\<forall>x y. price x \<noteq> None \<and> price y = None \<longrightarrow> price_key x < price_key y) \<and>
   (\<forall>i j. i < length matching_items \<and> j < length matching_items \<and>
          price (sorted_by_price matching_items ! i) \<noteq> None \<and>
          price (sorted_by_price matching_items ! j) = None \<longrightarrow> i < j)"
proof (intro conjI allI impI)
  show s: "sorted (map price_key (sorted_by_price matching_items))"
    by (simp add: sorted_by_price_def)
  show "mset (sorted_by_price matching_items) = mset matching_items"
    by (simp add: sorted_by_price_def)
  show "filter (\<lambda>x. price_key x = k) (sorted_by_price matching_items) =
        filter (\<lambda>x. price_key x = k) matching_items" for k
    by (simp add: sorted_by_price_def sort_key_stable)
  show "(price_key x \<le> price_key y) = (p \<le> q)" if "price x = Some p \<and> price y = Some q"
    for x y p q
    using that by (simp add: price_key_le_iff)
  show "price_key x < price_key y" if "price x \<noteq> None \<and> price y = None" for x y
    using that by (auto simp: less_le_not_le price_key_le_iff split: option.splits)
  show "i < j"
    if "i < length matching_items \<and> j < length matching_items \<and>
        price (sorted_by_price matching_items ! i) \<noteq> None \<and>
        price (sorted_by_price matching_items ! j) = None" for i j
  proof -
    have "length (sorted_by_price matching_items) = length matching_items"
      by (simp add: sorted_by_price_def)
    then show ?thesis
      using priced_before_unpriced [OF s, of i j] that by simp
  qed
qed

theorem sorted_by_price_order_witness:
  "sorted_by_price
     [offer ''diamond_sword'' ''a'' (Some 500), offer ''iron_sword'' ''b'' None,
      offer ''diamond_sword'' ''c'' (Some 100), offer ''stone_sword'' ''d'' (Some 100)] =
     [offer ''diamond_sword'' ''c'' (Some 100), offer ''stone_sword'' ''d'' (Some 100),
      offer ''diamond_sword'' ''a'' (Some 500), offer ''iron_sword'' ''b'' None] \<and>
   sorted (map price_key
     [offer ''diamond_sword'' ''c'' (Some 100), offer ''stone_sword'' ''d'' (Some 100),
      offer ''diamond_sword'' ''a'' (Some 500), offer ''iron_sword'' ''b'' None]) \<and>
   price (offer ''diamond_sword'' ''a'' (Some 500)) \<noteq> None \<and>
   price (offer ''iron_sword'' ''b'' None) = None \<and>
   price_key (offer ''diamond_sword'' ''a'' (Some 500)) < price_key (offer ''iron_sword'' ''b'' None)"
proof -
  have e: "sorted_by_price
     [offer ''diamond_sword'' ''a'' (Some 500), offer ''iron_sword'' ''b'' None,
      offer ''diamond_sword'' ''c'' (Some 100), offer ''stone_sword'' ''d'' (Some 100)] =
     [offer ''diamond_sword'' ''c'' (Some 100), offer ''stone_sword'' ''d'' (Some 100),
      offer ''diamond_sword'' ''a'' (Some 500), offer ''iron_sword'' ''b'' None]"
    by code_simp
  have p: "price (offer ''diamond_sword'' ''a'' (Some 500)) \<noteq> None"
    "price (offer ''iron_sword'' ''b'' None) = None"
    by (simp_all add: offer_def)
  show ?thesis
    using sorted_by_price_order
      [of "[offer ''diamond_sword'' ''a'' (Some 500), offer ''iron_sword'' ''b'' None,
            offer ''diamond_sword'' ''c'' (Some 100), offer ''stone_sword'' ''d'' (Some 100)]"]
      e p
    by simp
qed

subsection \<open>Strings\<close>














lemma matches_normalized: "matches py search_term item = py_in search_term (normalized_name py item)"
  by (simp add: matches_def normalized_name_def format_item_id_def)

lemma matches_fun: "matches py search_term = (\<lambda>item. py_in search_term (normalized_name py item))"
  by (rule ext) (rule matches_normalized)

subsection \<open>Exhaustive search\<close>

lemma ah_scan_stop:
  "page_listings remote page = [] \<Longrightarrow>
   ah_scan py remote search_term page matching_items trace =
     (matching_items, trace @ snd (fetch_auctions remote page))"
  by (subst ah_scan.simps)
     (auto simp: falsy_def page_listings_def split: prod.splits option.splits)

lemma ah_scan_cap:
  "page_listings remote page \<noteq> [] \<Longrightarrow> 100 \<le> page \<Longrightarrow>
   ah_scan py remote search_term page matching_items trace =
     (matching_items @ filter (matches py search_term) (page_listings remote page),
      trace @ snd (fetch_auctions remote page))"
  by (subst ah_scan.simps)
     (auto simp: falsy_def page_listings_def split: prod.splits option.splits)

lemma ah_scan_step:
  "page_listings remote page \<noteq> [] \<Longrightarrow> page < 100 \<Longrightarrow>
   ah_scan py remote search_term page matching_items trace =
     ah_scan py remote search_term (page + 1)
       (matching_items @ filter (matches py search_term) (page_listings remote page))
       (trace @ snd (fetch_auctions remote page))"
  by (subst ah_scan.simps)
     (auto simp: falsy_def page_listings_def split: prod.splits option.splits)

lemma ah_scan_from:
  "nat (100 - page) = n \<Longrightarrow> page \<le> 100 \<Longrightarrow>
   ah_scan py remote search_term page matching_items trace =
     (matching_items @
        concat (map (\<lambda>p. filter (matches py search_term) (page_listings remote p))
                    (takeWhile (\<lambda>p. page_listings remote p \<noteq> []) [page..100])),
      trace @
        concat (map (\<lambda>p. snd (fetch_auctions remote p))
                    (take (Suc (length (takeWhile (\<lambda>p. page_listings remote p \<noteq> []) [page..100])))
                          [page..100])))"
proof (induction n arbitrary: page matching_items trace)
  case 0
  then have p: "page = 100"
    by simp
  have u: "[100..100::int] = [100]"
    by (simp add: upto_rec1)
  show ?case
    unfolding p u
    by (cases "page_listings remote 100 = []") (simp_all add: ah_scan_stop ah_scan_cap)
next
  case (Suc n)
  then have p: "page < 100" and n: "nat (100 - (page + 1)) = n" and q: "page + 1 \<le> 100"
    by simp_all
  have u: "[page..100] = page # [page + 1..100]"
    using p by (simp add: upto_rec1)
  show ?case
  proof (cases "page_listings remote page = []")
    case True
    then show ?thesis
      by (simp add: ah_scan_stop u)
  next
    case False
    then show ?thesis
      by (simp add: ah_scan_step [OF False p] Suc.IH [OF n q] u)
  qed
qed

lemma requests_append: "requests (xs @ ys) = requests xs @ requests ys"
  by (induction xs rule: requests.induct) simp_all

lemma requests_fetch_auctions: "requests (snd (fetch_auctions remote page)) = [page_url page]"
  by (simp add: fetch_auctions_def make_api_request_def page_url_def
           split: prod.splits http_outcome.splits sum.splits)

lemma requests_pages:
  "requests (concat (map (\<lambda>p. snd (fetch_auctions remote p)) pages)) = map page_url pages"
  by (induction pages) (simp_all add: requests_append requests_fetch_auctions)

lemma ah_scan_eq:
  "ah_scan py remote search_term 1 [] [] =
     (exhaustive_matches py remote search_term,
      concat (map (\<lambda>p. snd (fetch_auctions remote p)) (fetched_pages remote)))"
  using ah_scan_from [of 1 99 py remote search_term "[]" "[]"]
  by (simp add: exhaustive_matches_def scanned_pages_def fetched_pages_def matches_fun)

lemma take_upto: "take n [i..j] = [i..min j (i + int n - 1)]"
proof (induction n arbitrary: i)
  case 0
  then show ?case by simp
next
  case (Suc n)
  show ?case
  proof (cases "i \<le> j")
    case True
    then have "take (Suc n) [i..j] = i # take n [i + 1..j]"
      by (simp add: upto_rec1)
    also have "\<dots> = i # [i + 1..min j (i + 1 + int n - 1)]"
      by (simp only: Suc.IH)
    also have "\<dots> = [i..min j (i + int (Suc n) - 1)]"
      using True by (simp add: upto_rec1 [of i] add.commute add.left_commute)
    finally show ?thesis .
  next
    case False
    then show ?thesis by simp
  qed
qed



lemma sorted_by_price_Nil: "sorted_by_price ms = [] \<longleftrightarrow> ms = []"
proof -
  have "length (sorted_by_price ms) = length ms"
    by (simp add: sorted_by_price_def)
  then show ?thesis
    by (metis length_0_conv)
qed




subsection \<open>Minimum search\<close>

lemma price_scan_stop:
  "page_listings remote page = [] \<Longrightarrow>
   price_scan py remote search_term page matching_items trace =
     Some (matching_items, trace @ snd (fetch_auctions remote page))"
  by (subst price_scan.simps)
     (auto simp: falsy_def page_listings_def split: prod.splits option.splits)

lemma price_scan_step:
  "page_listings remote page \<noteq> [] \<Longrightarrow>
   price_scan py remote search_term page matching_items trace =
     price_scan py remote search_term (page + 1)
       (matching_items @ filter (matches py search_term) (page_listings remote page))
       (trace @ snd (fetch_auctions remote page))"
  by (subst price_scan.simps)
     (auto simp: falsy_def page_listings_def split: prod.splits option.splits)

lemma price_scan_until:
  "nat (n - page) = k \<Longrightarrow> page \<le> n \<Longrightarrow>
   (\<forall>p. page \<le> p \<and> p < n \<longrightarrow> page_listings remote p \<noteq> []) \<Longrightarrow>
   page_listings remote n = [] \<Longrightarrow>
   price_scan py remote search_term page matching_items trace =
     Some (matching_items @
             concat (map (\<lambda>p. filter (matches py search_term) (page_listings remote p)) [page..n - 1]),
           trace @ concat (map (\<lambda>p. snd (fetch_auctions remote p)) [page..n]))"
proof (induction k arbitrary: page matching_items trace)
  case 0
  then have "page = n"
    by simp
  then show ?case
    using "0.prems"(4) by (simp add: price_scan_stop)
next
  case (Suc k)
  then have p: "page < n" and k: "nat (n - (page + 1)) = k" and q: "page + 1 \<le> n"
    by simp_all
  have ne: "page_listings remote page \<noteq> []"
    using Suc.prems(3) p by simp
  have rest: "\<forall>p. page + 1 \<le> p \<and> p < n \<longrightarrow> page_listings remote p \<noteq> []"
    using Suc.prems(3) by simp
  have u: "[page..n - 1] = page # [page + 1..n - 1]" "[page..n] = page # [page + 1..n]"
    using p by (simp_all add: upto_rec1)
  show ?case
    by (simp add: price_scan_step [OF ne] Suc.IH [OF k q rest Suc.prems(4)] u)
qed

lemma price_scan_Some_stops:
  "price_scan py remote search_term page matching_items trace = Some y \<Longrightarrow>
   \<exists>p\<ge>page. page_listings remote p = []"
proof (induction rule: price_scan.raw_induct [rotated 1, consumes 1])
  case (1 price_scan py remote search_term page matching_items trace y)
  show ?case
  proof (cases "page_listings remote page = []")
    case True
    then show ?thesis
      by auto
  next
    case False
    then have "price_scan py remote search_term (page + 1)
        (matching_items @ filter (matches py search_term) (the (fst (fetch_auctions remote page))))
        (trace @ snd (fetch_auctions remote page)) = Some y"
      using "1"(2) by (auto simp: falsy_def page_listings_def split: prod.splits option.splits)
    then obtain p where "page + 1 \<le> p" "page_listings remote p = []"
      using "1"(1) by blast
    then show ?thesis
      by (intro exI [of _ p]) simp
  qed
qed

lemma price_scan_diverges:
  "(\<forall>p\<ge>page. page_listings remote p \<noteq> []) \<Longrightarrow>
   price_scan py remote search_term page matching_items trace = None"
  using price_scan_Some_stops [of py remote search_term page matching_items trace]
  by (cases "price_scan py remote search_term page matching_items trace") auto

lemma price_scan_eq:
  assumes "1 \<le> n" "\<forall>p\<in>{1..<n}. page_listings remote p \<noteq> []" "page_listings remote n = []"
  shows "price_scan py remote search_term 1 [] [] =
     Some (matches_before py remote search_term n,
           concat (map (\<lambda>p. snd (fetch_auctions remote p)) [1..n]))"
proof -
  have "\<forall>p. 1 \<le> p \<and> p < n \<longrightarrow> page_listings remote p \<noteq> []"
    using assms(2) by simp
  from price_scan_until [OF refl assms(1) this assms(3), of py search_term "[]" "[]"]
  show ?thesis
    by (simp add: matches_before_def matches_fun)
qed

lemma min_from_first:
  "\<exists>pre post. b # xs = pre @ min_from k b xs # post \<and>
     (\<forall>x\<in>set pre. k (min_from k b xs) < k x) \<and>
     (\<forall>x\<in>set post. k (min_from k b xs) \<le> k x)"
proof (induction xs arbitrary: b)
  case Nil
  show ?case
    by (intro exI [of _ "[]"]) simp
next
  case (Cons x xs)
  define b' where "b' = (if k x < k b then x else b)"
  define m where "m = min_from k b' xs"
  have m: "min_from k b (x # xs) = m"
    by (simp add: m_def b'_def)
  obtain pre post where d: "b' # xs = pre @ m # post"
    and lt: "\<forall>y\<in>set pre. k m < k y" and le: "\<forall>y\<in>set post. k m \<le> k y"
    using Cons.IH [of b'] unfolding m_def by blast
  have mb': "k m \<le> k b'"
  proof (cases pre)
    case Nil
    then show ?thesis
      using d by simp
  next
    case (Cons a pre')
    then have "b' \<in> set pre"
      using d by simp
    then show ?thesis
      using lt by (simp add: less_imp_le)
  qed
  show ?case
  proof (cases "k x < k b")
    case True
    then have "b' = x"
      by (simp add: b'_def)
    then have "b # x # xs = (b # pre) @ m # post"
      using d by simp
    moreover have "\<forall>y\<in>set (b # pre). k m < k y"
      using lt mb' True \<open>b' = x\<close> by auto
    ultimately show ?thesis
      unfolding m using le by blast
  next
    case False
    then have bb: "b' = b"
      by (simp add: b'_def)
    show ?thesis
    proof (cases pre)
      case Nil
      then have "m = b" "post = xs"
        using d bb by simp_all
      then have "b # x # xs = [] @ m # (x # xs)" "\<forall>y\<in>set (x # xs). k m \<le> k y"
        using le False by auto
      then show ?thesis
        unfolding m by (metis empty_iff list.set(1))
    next
      case (Cons a pre')
      then have "a = b" "xs = pre' @ m # post"
        using d bb by simp_all
      then have "b # x # xs = (b # x # pre') @ m # post"
        by simp
      moreover have "k m < k b"
        using lt Cons \<open>a = b\<close> by simp
      then have "\<forall>y\<in>set (b # x # pre'). k m < k y"
        using lt Cons False by auto
      ultimately show ?thesis
        unfolding m using le by blast
    qed
  qed
qed

text \<open>
  C2. \<^verbatim>\<open>/price\<close> requests the pages \<open>1, 2, \<dots>\<close> with no bound on the page number: when
  page \<open>n\<close> is the first page that yields no items, it requests exactly the pages
  \<open>1, \<dots>, n\<close> and returns; when every page yields items it never returns. In the first
  case, if no listing of the pages before \<open>n\<close> matches it reports that; otherwise it
  reports one listing \<open>m\<close> among the matches: every match met before \<open>m\<close> has a strictly
  higher price, and every match met after \<open>m\<close> has a price at least as high.
\<close>

theorem price_command_lowest:
  "args \<noteq> [] \<Longrightarrow> search_term = lower py (join '' '' args) \<Longrightarrow>
   (1 \<le> n \<and> (\<forall>p\<in>{1..<n}. page_listings remote p \<noteq> []) \<and> page_listings remote n = [] \<longrightarrow>
      (\<exists>reply trace.
         price_command py remote args =
           Some ([ReplyText (searching_notice search_term ''This will be very slow'') None,
                  ReplyText reply None], trace) \<and>
         requests trace = map page_url [1..n] \<and>
         (matches_before py remote search_term n = [] \<longrightarrow> reply = not_found_text search_term) \<and>
         (matches_before py remote search_term n \<noteq> [] \<longrightarrow>
            (\<exists>pre m post.
               matches_before py remote search_term n = pre @ m # post \<and>
               (\<forall>x\<in>set pre. price_key m < price_key x) \<and>
               (\<forall>x\<in>set post. price_key m \<le> price_key x) \<and>
               reply = lowest_price_message py m)))) \<and>
   ((\<forall>p\<ge>1. page_listings remote p \<noteq> []) \<longrightarrow> price_command py remote args = None)"
proof (intro conjI impI)
  assume a: "args \<noteq> []" and t: "search_term = lower py (join '' '' args)"
  {
    assume "\<forall>p\<ge>1. page_listings remote p \<noteq> []"
    then show "price_command py remote args = None"
      using a by (simp add: price_command_def price_scan_diverges)
  }
  assume "1 \<le> n \<and> (\<forall>p\<in>{1..<n}. page_listings remote p \<noteq> []) \<and> page_listings remote n = []"
  then have s: "price_scan py remote search_term 1 [] [] =
     Some (matches_before py remote search_term n,
           concat (map (\<lambda>p. snd (fetch_auctions remote p)) [1..n]))"
    by (simp add: price_scan_eq)
  let ?trace = "concat (map (\<lambda>p. snd (fetch_auctions remote p)) [1..n])"
  have r: "requests ?trace = map page_url [1..n]"
    by (rule requests_pages)
  show "\<exists>reply trace.
         price_command py remote args =
           Some ([ReplyText (searching_notice search_term ''This will be very slow'') None,
                  ReplyText reply None], trace) \<and>
         requests trace = map page_url [1..n] \<and>
         (matches_before py remote search_term n = [] \<longrightarrow> reply = not_found_text search_term) \<and>
         (matches_before py remote search_term n \<noteq> [] \<longrightarrow>
            (\<exists>pre m post.
               matches_before py remote search_term n = pre @ m # post \<and>
               (\<forall>x\<in>set pre. price_key m < price_key x) \<and>
               (\<forall>x\<in>set post. price_key m \<le> price_key x) \<and>
               reply = lowest_price_message py m))"
  proof (cases "matches_before py remote search_term n")
    case Nil
    then have "price_command py remote args =
        Some ([ReplyText (searching_notice search_term ''This will be very slow'') None,
               ReplyText (not_found_text search_term) None], ?trace)"
      using a s by (simp add: price_command_def t [symmetric])
    then show ?thesis
      using r Nil by simp
  next
    case (Cons x xs)
    then have c: "price_command py remote args =
        Some ([ReplyText (searching_notice search_term ''This will be very slow'') None,
               ReplyText (lowest_price_message py (min_from price_key x xs)) None], ?trace)"
      using a s by (simp add: price_command_def t [symmetric])
    obtain pre post where "x # xs = pre @ min_from price_key x xs # post"
      "\<forall>y\<in>set pre. price_key (min_from price_key x xs) < price_key y"
      "\<forall>y\<in>set post. price_key (min_from price_key x xs) \<le> price_key y"
      using min_from_first [of x xs price_key] by blast
    then have e: "\<exists>pre m post.
        matches_before py remote search_term n = pre @ m # post \<and>
        (\<forall>x\<in>set pre. price_key m < price_key x) \<and>
        (\<forall>x\<in>set post. price_key m \<le> price_key x) \<and>
        lowest_price_message py (min_from price_key x xs) = lowest_price_message py m"
      unfolding Cons by blast
    have ne: "matches_before py remote search_term n \<noteq> []"
      using Cons by simp
    show ?thesis
      by (rule exI [of _ "lowest_price_message py (min_from price_key x xs)"],
          rule exI [of _ ?trace])
         (use c r e ne in simp)
  qed
qed

theorem price_command_lowest_witness:
  "[''Sword''] \<noteq> [] \<and>
   page_listings sample_remote 1 \<noteq> [] \<and> page_listings sample_remote 2 \<noteq> [] \<and>
   page_listings sample_remote 3 = [] \<and>
   matches_before sample_python sample_remote ''sword'' 3 =
     [offer ''minecraft:diamond_sword'' ''a'' (Some 500)] @
     offer ''minecraft:iron_sword'' ''c'' None #
     [offer ''minecraft:Diamond_Sword'' ''d'' (Some 100), offer ''wooden_sword'' ''e'' (Some 100)] \<and>
   (\<exists>trace.
      price_command sample_python sample_remote [''Sword''] =
        Some ([ReplyText (searching_notice ''sword'' ''This will be very slow'') None,
               ReplyText
                 (lowest_price_message sample_python (offer ''minecraft:Diamond_Sword'' ''d'' (Some 100)))
                 None], trace) \<and>
      requests trace = map page_url [1, 2, 3]) \<and>
   page_listings endless_remote 7 \<noteq> [] \<and>
   price_command sample_python endless_remote [''Sword''] = None"
proof -
  let ?a = "offer ''minecraft:diamond_sword'' ''a'' (Some 500)"
  let ?c = "offer ''minecraft:iron_sword'' ''c'' None"
  let ?d = "offer ''minecraft:Diamond_Sword'' ''d'' (Some 100)"
  let ?e = "offer ''wooden_sword'' ''e'' (Some 100)"
  have a: "[''Sword''] \<noteq> []"
    by simp
  have t: "''sword'' = lower sample_python (join '' '' [''Sword''])"
    by code_simp
  have p: "page_listings sample_remote 1 \<noteq> []" "page_listings sample_remote 2 \<noteq> []"
    "page_listings sample_remote 3 = []"
    by code_simp+
  have i: "{1..<3::int} = {1, 2}"
    by auto
  have h: "1 \<le> (3::int) \<and> (\<forall>p\<in>{1..<3}. page_listings sample_remote p \<noteq> []) \<and>
      page_listings sample_remote 3 = []"
    using p by (simp add: i)
  have m: "matches_before sample_python sample_remote ''sword'' 3 = [?a, ?c, ?d, ?e]"
    by code_simp
  have u: "[1..3::int] = [1, 2, 3]"
    by code_simp
  have k: "price_key ?a = Num 500" "price_key ?c = PosInf" "price_key ?d = Num 100"
    "price_key ?e = Num 100"
    by (simp_all add: price_key_def offer_def)
  have l: "\<not> Num 500 \<le> Num 100" "\<not> PosInf \<le> Num 100" "\<not> Num 100 < Num 100"
    by (simp_all add: less_key_def)
  note w = price_command_lowest [OF a t, of 3 sample_remote, THEN conjunct1, rule_format, OF h]
  then obtain reply trace pre x post where
    c: "price_command sample_python sample_remote [''Sword''] =
          Some ([ReplyText (searching_notice ''sword'' ''This will be very slow'') None,
                 ReplyText reply None], trace)"
    and r: "requests trace = map page_url [1..3]"
    and d: "[?a, ?c, ?d, ?e] = pre @ x # post"
    and lt: "\<forall>y\<in>set pre. price_key x < price_key y"
    and le: "\<forall>y\<in>set post. price_key x \<le> price_key y"
    and y: "reply = lowest_price_message sample_python x"
    unfolding m by auto
  have "x = ?d"
    using d lt le k l
    by (auto simp: Cons_eq_append_conv)
  then have "\<exists>trace.
      price_command sample_python sample_remote [''Sword''] =
        Some ([ReplyText (searching_notice ''sword'' ''This will be very slow'') None,
               ReplyText (lowest_price_message sample_python ?d) None], trace) \<and>
      requests trace = map page_url [1, 2, 3]"
    using c r y u by simp
  moreover have e: "\<forall>p\<ge>1. page_listings endless_remote p \<noteq> []"
    by (simp add: page_listings_def fetch_auctions_def make_api_request_def endless_remote_def)
  moreover have "price_command sample_python endless_remote [''Sword''] = None"
    using price_command_lowest [OF a t, of 3 endless_remote, THEN conjunct2] e by simp
  ultimately show ?thesis
    using a p m by simp
qed

subsection \<open>The two searches agree\<close>

lemma hd_sort_key_first:
  "(\<forall>x\<in>set pre. k m < k x) \<Longrightarrow> (\<forall>x\<in>set post. k m \<le> k x) \<Longrightarrow>
   hd (sort_key k (pre @ m # post)) = m"
proof (induction pre)
  case Nil
  then have "insort_key k m (sort_key k post) = m # sort_key k post"
    by (intro insort_is_Cons) simp
  then show ?case
    by simp
next
  case (Cons p pre)
  then have h: "hd (sort_key k (pre @ m # post)) = m"
    by simp
  have "length (sort_key k (pre @ m # post)) \<noteq> 0"
    by simp
  then obtain rest where s: "sort_key k (pre @ m # post) = m # rest"
    using h by (cases "sort_key k (pre @ m # post)") auto
  have "\<not> k p \<le> k m"
    using Cons.prems(1) by (simp add: not_le)
  then show ?case
    by (simp add: s)
qed

lemma first_empty_page:
  assumes "1 \<le> n" "n \<le> 100" "page_listings remote n = []"
  obtains k where "1 \<le> k" "k \<le> 100" "page_listings remote k = []"
    "\<forall>p\<in>{1..<k}. page_listings remote p \<noteq> []" "scanned_pages remote = [1..k - 1]"
proof -
  let ?P = "\<lambda>p. page_listings remote p \<noteq> []"
  let ?L = "takeWhile ?P [1..100]"
  have len: "length ?L \<le> 100"
    using length_takeWhile_le [of ?P "[1..100]"] by simp
  have L: "?L = [1..int (length ?L)]"
  proof -
    have "?L = take (length ?L) [1..100]"
      by (rule takeWhile_eq_take)
    also have "\<dots> = [1..int (length ?L)]"
      using len by (simp add: take_upto)
    finally show ?thesis .
  qed
  have all: "?P p" if "p \<in> {1..int (length ?L)}" for p
  proof -
    have "p \<in> set ?L"
      using that by (subst L) simp
    then show ?thesis
      by (auto dest: set_takeWhileD)
  qed
  have "length ?L \<noteq> 100"
  proof
    assume "length ?L = 100"
    then have "?P n"
      using all [of n] assms(1,2) by simp
    then show False
      using assms(3) by simp
  qed
  then have lt: "length ?L < length [1..100::int]"
    using len by simp
  have "\<not> ?P ([1..100] ! length ?L)"
    using lt by (rule nth_length_takeWhile)
  then have e: "page_listings remote (1 + int (length ?L)) = []"
    using lt by simp
  show ?thesis
  proof (rule that [of "1 + int (length ?L)"])
    show "1 \<le> 1 + int (length ?L)"
      by simp
    show "1 + int (length ?L) \<le> 100"
      using lt by simp
    show "page_listings remote (1 + int (length ?L)) = []"
      by (rule e)
    show "\<forall>p\<in>{1..<1 + int (length ?L)}. page_listings remote p \<noteq> []"
      using all by auto
    show "scanned_pages remote = [1..1 + int (length ?L) - 1]"
      unfolding scanned_pages_def using L by simp
  qed
qed

lemma matches_before_first_empty:
  "scanned_pages remote = [1..k - 1] \<Longrightarrow>
   matches_before py remote search_term k = exhaustive_matches py remote search_term"
  by (simp add: matches_before_def exhaustive_matches_def)

lemma min_from_is_hd_sorted:
  "min_from price_key x xs = hd (sorted_by_price (x # xs))"
proof -
  obtain pre post where "x # xs = pre @ min_from price_key x xs # post"
    "\<forall>y\<in>set pre. price_key (min_from price_key x xs) < price_key y"
    "\<forall>y\<in>set post. price_key (min_from price_key x xs) \<le> price_key y"
    using min_from_first [of x xs price_key] by blast
  then show ?thesis
    unfolding sorted_by_price_def using hd_sort_key_first [of pre price_key _ post] by simp
qed

text \<open>
  C10. When some page among \<open>1, \<dots>, 100\<close> yields no items and at least one listing
  matches, both scans collect the same matches, and the listing that \<^verbatim>\<open>/price\<close> reports
  (\<^verbatim>\<open>min\<close> of the matches by price) is the first element of the sorted results that
  \<^verbatim>\<open>/ah\<close> caches for the same arguments.
\<close>

theorem price_command_agrees_with_ah_command:
  "args \<noteq> [] \<Longrightarrow> search_term = lower py (join '' '' args) \<Longrightarrow>
   1 \<le> n \<Longrightarrow> n \<le> 100 \<Longrightarrow> page_listings remote n = [] \<Longrightarrow>
   exhaustive_matches py remote search_term \<noteq> [] \<Longrightarrow>
   \<exists>matching_items sorted_items lowest_auction trace.
     fst (ah_scan py remote search_term 1 [] []) = matching_items \<and>
     price_scan py remote search_term 1 [] [] = Some (matching_items, trace) \<and>
     matching_items \<noteq> [] \<and>
     lowest_auction = min_from price_key (hd matching_items) (tl matching_items) \<and>
     fst (ah_command py remote new_id chat_data args) new_id =
       Some \<lparr>cached_term = search_term, cached_results = sorted_items\<rparr> \<and>
     price_command py remote args =
       Some ([ReplyText (searching_notice search_term ''This will be very slow'') None,
              ReplyText (lowest_price_message py lowest_auction) None], trace) \<and>
     sorted_items \<noteq> [] \<and>
     lowest_auction = hd sorted_items"
proof -
  assume a: "args \<noteq> []" and t: "search_term = lower py (join '' '' args)"
    and n: "1 \<le> n" "n \<le> 100" "page_listings remote n = []"
    and ne: "exhaustive_matches py remote search_term \<noteq> []"
  let ?ms = "exhaustive_matches py remote search_term"
  obtain k where k: "1 \<le> k" "page_listings remote k = []"
    "\<forall>p\<in>{1..<k}. page_listings remote p \<noteq> []" "scanned_pages remote = [1..k - 1]"
    using first_empty_page [OF n] by blast
  let ?trace = "concat (map (\<lambda>p. snd (fetch_auctions remote p)) [1..k])"
  have ps: "price_scan py remote search_term 1 [] [] = Some (?ms, ?trace)"
    using price_scan_eq [OF k(1) k(3) k(2), of py search_term]
    by (simp add: matches_before_first_empty [OF k(4)])
  have as: "fst (ah_scan py remote search_term 1 [] []) = ?ms"
    by (simp add: ah_scan_eq)
  obtain x xs where c: "?ms = x # xs"
    using ne by (cases ?ms) auto
  let ?low = "min_from price_key x xs"
  have hd: "?low = hd (sorted_by_price ?ms)"
    unfolding c by (rule min_from_is_hd_sorted)
  have sn: "sorted_by_price ?ms \<noteq> []"
    using ne by (simp add: sorted_by_price_Nil)
  have ah: "fst (ah_command py remote new_id chat_data args) new_id =
      Some \<lparr>cached_term = search_term, cached_results = sorted_by_price ?ms\<rparr>"
    using a ne
    by (simp add: ah_command_def ah_scan_eq Let_def t [symmetric] split: prod.splits)
  have pc: "price_command py remote args =
      Some ([ReplyText (searching_notice search_term ''This will be very slow'') None,
             ReplyText (lowest_price_message py ?low) None], ?trace)"
    using a by (simp add: price_command_def t [symmetric] ps c)
  have lo: "?low = min_from price_key (hd ?ms) (tl ?ms)"
    by (simp add: c)
  show ?thesis
    using as ps ne lo ah pc sn hd by blast
qed

theorem price_command_agrees_with_ah_command_witness:
  "[''Sword''] \<noteq> [] \<and> page_listings sample_remote 3 = [] \<and>
   exhaustive_matches sample_python sample_remote ''sword'' \<noteq> [] \<and>
   fst (ah_command sample_python sample_remote ''id'' Map.empty [''Sword'']) ''id'' =
     Some \<lparr>cached_term = ''sword'',
           cached_results =
             [offer ''minecraft:Diamond_Sword'' ''d'' (Some 100),
              offer ''wooden_sword'' ''e'' (Some 100),
              offer ''minecraft:diamond_sword'' ''a'' (Some 500),
              offer ''minecraft:iron_sword'' ''c'' None]\<rparr> \<and>
   (\<exists>trace.
      price_command sample_python sample_remote [''Sword''] =
        Some ([ReplyText (searching_notice ''sword'' ''This will be very slow'') None,
               ReplyText
                 (lowest_price_message sample_python (offer ''minecraft:Diamond_Sword'' ''d'' (Some 100)))
                 None], trace))"
proof -
  have a: "[''Sword''] \<noteq> []"
    by simp
  have t: "''sword'' = lower sample_python (join '' '' [''Sword''])"
    by code_simp
  have p: "page_listings sample_remote 3 = []"
    by code_simp
  have m: "exhaustive_matches sample_python sample_remote ''sword'' \<noteq> []"
    by code_simp
  have s: "sorted_by_price (exhaustive_matches sample_python sample_remote ''sword'') =
     [offer ''minecraft:Diamond_Sword'' ''d'' (Some 100),
      offer ''wooden_sword'' ''e'' (Some 100),
      offer ''minecraft:diamond_sword'' ''a'' (Some 500),
      offer ''minecraft:iron_sword'' ''c'' None]"
    by code_simp
  have l: "lower sample_python ''Sword'' = ''sword''"
    by code_simp
  have c: "fst (ah_command sample_python sample_remote ''id'' Map.empty [''Sword'']) ''id'' =
     Some \<lparr>cached_term = ''sword'',
           cached_results =
             [offer ''minecraft:Diamond_Sword'' ''d'' (Some 100),
              offer ''wooden_sword'' ''e'' (Some 100),
              offer ''minecraft:diamond_sword'' ''a'' (Some 500),
              offer ''minecraft:iron_sword'' ''c'' None]\<rparr>"
    using m by (simp add: ah_command_def ah_scan_eq Let_def l s split: prod.splits)
  obtain sorted_items lowest_auction trace where
    "fst (ah_command sample_python sample_remote ''id'' Map.empty [''Sword'']) ''id'' =
       Some \<lparr>cached_term = ''sword'', cached_results = sorted_items\<rparr>"
    and "price_command sample_python sample_remote [''Sword''] =
       Some ([ReplyText (searching_notice ''sword'' ''This will be very slow'') None,
              ReplyText (lowest_price_message sample_python lowest_auction) None], trace)"
    and "lowest_auction = hd sorted_items"
    using price_command_agrees_with_ah_command
      [OF a t, of 3 sample_remote "''id''" Map.empty, OF _ _ p m]
    by auto
  then have "\<exists>trace.
      price_command sample_python sample_remote [''Sword''] =
        Some ([ReplyText (searching_notice ''sword'' ''This will be very slow'') None,
               ReplyText
                 (lowest_price_message sample_python (offer ''minecraft:Diamond_Sword'' ''d'' (Some 100)))
                 None], trace)"
    using c by auto
  then show ?thesis
    using a p m c by simp
qed

end
